theory Spec2Isabelle
  imports Main
begin

section \<open>Go values and Kubernetes objects read by the PV upgrade workflow\<close>

text \<open>
  A Go \<^verbatim>\<open>error\<close> value. \<open>Errorf\<close> is what \<^verbatim>\<open>fmt.Errorf\<close> builds,
  \<open>StatusError reason message\<close> is the API machinery's \<^verbatim>\<open>*apierrors.StatusError\<close>,
  \<open>Permanent\<close> is the backoff library's wrapper that stops a retry loop (no function of
  \<^verbatim>\<open>upgrade_pv.go\<close> builds one), and \<open>RuntimePanic\<close> stands for a nil pointer dereference
  that unwinds the call instead of returning.
\<close>

datatype go_error =
    Errorf string
  | StatusError string string
  | Permanent go_error
  | RuntimePanic string

text \<open>The \<^verbatim>\<open>Error()\<close> method, as \<^verbatim>\<open>%v\<close> prints an error.\<close>

fun Error :: "go_error \<Rightarrow> string" where
  "Error (Errorf msg) = msg"
| "Error (StatusError reason msg) = msg"
| "Error (Permanent err) = Error err"
| "Error (RuntimePanic msg) = msg"

text \<open>\<^verbatim>\<open>strings.Join\<close>.\<close>

fun Join :: "string list \<Rightarrow> string \<Rightarrow> string" where
  "Join [] sep = []"
| "Join [x] sep = x"
| "Join (x # y # ys) sep = x @ sep @ Join (y # ys) sep"

text \<open>\<^verbatim>\<open>time.Duration\<close>: a count of nanoseconds.\<close>

type_synonym Duration = int

text \<open>
  \<^verbatim>\<open>storage.VolumeExternal\<close> with its \<^verbatim>\<open>Config\<close>, and \<^verbatim>\<open>storage.UpgradeVolumeRequest\<close>:
  the fields the workflow reads.
\<close>

record VolumeConfig =
  cfg_Name :: string
  cfg_InternalName :: string
  cfg_Protocol :: string

record VolumeExternal =
  vol_Config :: VolumeConfig
  vol_BackendUUID :: string
  vol_State :: string

record UpgradeVolumeRequest =
  req_Type :: string
  req_Volume :: string

text \<open>
  The Kubernetes API objects (\<^verbatim>\<open>k8s.io/api/core/v1\<close>), with \<^verbatim>\<open>ObjectMeta\<close>,
  \<^verbatim>\<open>Spec\<close> and \<^verbatim>\<open>Status\<close> flattened into one record each. A nil pointer is
  \<open>None\<close>, a nil slice is \<open>[]\<close>, a nil map is the empty map, and a phase is the
  string it is in Go.
\<close>

record NFSVolumeSource =
  nfs_Server :: string
  nfs_Path :: string
  nfs_ReadOnly :: bool

record ISCSIPersistentVolumeSource =
  iscsi_TargetPortal :: string
  iscsi_IQN :: string
  iscsi_FSType :: string
  iscsi_ReadOnly :: bool

record CSIPersistentVolumeSource =
  csi_Driver :: string
  csi_VolumeHandle :: string
  csi_ReadOnly :: bool
  csi_FSType :: string
  csi_VolumeAttributes :: "string \<rightharpoonup> string"

record ObjectReference =
  ref_Namespace :: string
  ref_Name :: string

record PersistentVolume =
  pv_Name :: string
  pv_ResourceVersion :: string
  pv_UID :: string
  pv_Annotations :: "string \<rightharpoonup> string"
  pv_Finalizers :: "string list"
  pv_DeletionTimestamp :: "nat option"
  pv_NFS :: "NFSVolumeSource option"
  pv_ISCSI :: "ISCSIPersistentVolumeSource option"
  pv_CSI :: "CSIPersistentVolumeSource option"
  pv_ClaimRef :: "ObjectReference option"
  pv_Phase :: string

record PersistentVolumeClaim =
  pvc_Name :: string
  pvc_Namespace :: string
  pvc_ResourceVersion :: string
  pvc_Annotations :: "string \<rightharpoonup> string"
  pvc_VolumeName :: string
  pvc_Phase :: string

text \<open>
  A pod volume: \<open>vol_ClaimName\<close> is \<open>None\<close> when the volume's
  \<^verbatim>\<open>PersistentVolumeClaim\<close> source is nil, else the claim name it carries.
\<close>

record Volume =
  vol_Name :: string
  vol_ClaimName :: "string option"

record Pod =
  pod_Name :: string
  pod_OwnerReferences :: "string list"
  pod_Volumes :: "Volume list"
  pod_Phase :: string

definition VolumeBound :: string where
  "VolumeBound = ''Bound''"

definition ClaimBound :: string where
  "ClaimBound = ''Bound''"

definition ClaimLost :: string where
  "ClaimLost = ''Lost''"

definition PodRunning :: string where
  "PodRunning = ''Running''"

definition StatusReasonNotFound :: string where
  "StatusReasonNotFound = ''NotFound''"

text \<open>A Go map read at a key: the zero value \<^verbatim>\<open>""\<close> when the key is absent.\<close>

definition index_map :: "(string \<rightharpoonup> string) \<Rightarrow> string \<Rightarrow> string" where
  "index_map m k = (case m k of None \<Rightarrow> [] | Some v \<Rightarrow> v)"

section \<open>The cluster and the plugin's collaborators\<close>

text \<open>
  The calls of the workflow that change the cluster. \<open>PatchPV old new\<close> and
  \<open>PatchPVC old new\<close> carry the two objects handed to \<^verbatim>\<open>patchPV\<close> and
  \<^verbatim>\<open>patchPVC\<close>.
\<close>

datatype request =
    DeletePV string
  | PatchPV PersistentVolume PersistentVolume
  | PatchPVC PersistentVolumeClaim PersistentVolumeClaim
  | CreatePV PersistentVolume
  | DeletePod string string

text \<open>
  What the workflow can change: \<open>now\<close> counts the backoff sleeps it has slept, and
  \<open>requests\<close> lists the mutating calls it has issued, oldest first. Everything the
  cluster answers is a function of these two.
\<close>

record cluster =
  now :: nat
  requests :: "request list"

text \<open>An entry of the PV indexer's cache: a PV, or an object of another type.\<close>

datatype cache_item = PVItem PersistentVolume | OtherItem

text \<open>
  The plugin \<^verbatim>\<open>p\<close>: the collaborators that \<^verbatim>\<open>upgrade_pv.go\<close> calls and does not
  define, each answering from the cluster as it stands, and the constants it names and
  does not declare. \<open>pvIndexer_GetByKey\<close> answers \<open>Inl err\<close>, \<open>Inr None\<close> (the key
  does not exist) or \<open>Inr (Some item)\<close>. \<open>Pods_Get\<close> may answer a nil pod without an
  error. \<open>backoff_retries d\<close> is the number of times the exponential backoff configured
  with \<^verbatim>\<open>MaxElapsedTime = d\<close> grants another attempt before \<^verbatim>\<open>NextBackOff\<close> says
  \<^verbatim>\<open>Stop\<close>, and \<open>Seconds_3_2f d\<close> is \<^verbatim>\<open>d.Seconds()\<close> printed with \<^verbatim>\<open>%3.2f\<close>.
\<close>

record Plugin =
  GetVolume :: "cluster \<Rightarrow> string \<Rightarrow> go_error + VolumeExternal"
  getCachedPVByName :: "cluster \<Rightarrow> string \<Rightarrow> go_error + PersistentVolume"
  getCachedPVCByName :: "cluster \<Rightarrow> string \<Rightarrow> string \<Rightarrow> go_error + PersistentVolumeClaim"
  pvIndexer_GetByKey :: "cluster \<Rightarrow> string \<Rightarrow> go_error + cache_item option"
  Pods_List :: "cluster \<Rightarrow> string \<Rightarrow> go_error + Pod list"
  Pods_Get :: "cluster \<Rightarrow> string \<Rightarrow> string \<Rightarrow> go_error + Pod option"
  PersistentVolumes_Delete_answer :: "cluster \<Rightarrow> string \<Rightarrow> go_error option"
  PersistentVolumes_Create_answer :: "cluster \<Rightarrow> PersistentVolume \<Rightarrow> go_error + PersistentVolume"
  Pods_Delete_answer :: "cluster \<Rightarrow> string \<Rightarrow> string \<Rightarrow> go_error option"
  patchPV_answer :: "cluster \<Rightarrow> PersistentVolume \<Rightarrow> PersistentVolume \<Rightarrow> go_error + PersistentVolume"
  patchPVC_answer ::
    "cluster \<Rightarrow> PersistentVolumeClaim \<Rightarrow> PersistentVolumeClaim \<Rightarrow> go_error + PersistentVolumeClaim"
  backoff_retries :: "Duration \<Rightarrow> nat"
  Seconds_3_2f :: "Duration \<Rightarrow> string"
  PVDeleteWaitPeriod :: Duration
  PodDeleteWaitPeriod :: Duration
  VolumeStateOnline :: string
  AnnDynamicallyProvisioned :: string
  AnnBindCompleted :: string
  FinalizerPVProtection :: string
  csi_Provisioner :: string
  csi_LegacyProvisioner :: string

text \<open>Issuing a mutating call records it; sleeping one backoff interval advances the clock.\<close>

definition issue :: "request \<Rightarrow> cluster \<Rightarrow> cluster" where
  "issue r c = c\<lparr>requests := requests c @ [r]\<rparr>"

definition sleep :: "cluster \<Rightarrow> cluster" where
  "sleep c = c\<lparr>now := Suc (now c)\<rparr>"

definition PersistentVolumes_Delete :: "Plugin \<Rightarrow> string \<Rightarrow> cluster \<Rightarrow> go_error option \<times> cluster" where
  "PersistentVolumes_Delete p name c =
     (PersistentVolumes_Delete_answer p c name, issue (DeletePV name) c)"

definition PersistentVolumes_Create ::
  "Plugin \<Rightarrow> PersistentVolume \<Rightarrow> cluster \<Rightarrow> (go_error + PersistentVolume) \<times> cluster" where
  "PersistentVolumes_Create p pv c =
     (PersistentVolumes_Create_answer p c pv, issue (CreatePV pv) c)"

definition Pods_Delete :: "Plugin \<Rightarrow> string \<Rightarrow> string \<Rightarrow> cluster \<Rightarrow> go_error option \<times> cluster" where
  "Pods_Delete p namespace name c =
     (Pods_Delete_answer p c namespace name, issue (DeletePod namespace name) c)"

definition patchPV ::
  "Plugin \<Rightarrow> PersistentVolume \<Rightarrow> PersistentVolume \<Rightarrow> cluster \<Rightarrow> (go_error + PersistentVolume) \<times> cluster" where
  "patchPV p pv pvClone c = (patchPV_answer p c pv pvClone, issue (PatchPV pv pvClone) c)"

definition patchPVC ::
  "Plugin \<Rightarrow> PersistentVolumeClaim \<Rightarrow> PersistentVolumeClaim \<Rightarrow> cluster
     \<Rightarrow> (go_error + PersistentVolumeClaim) \<times> cluster" where
  "patchPVC p pvc pvcClone c = (patchPVC_answer p c pvc pvcClone, issue (PatchPVC pvc pvcClone) c)"

section \<open>The backoff poller\<close>

text \<open>
  Modelled from the spec: \<^verbatim>\<open>backoff.RetryNotify\<close> of the imported backoff library
  (section 4.1, Backoff Poller). The operation is tried; success returns; a permanent
  error is returned at once, unwrapped; any other error is retried after a sleep while
  the backoff grants another attempt, and returned when it does not. The operation is a
  closure: besides its error it yields the value it leaves in the variables it captured.
  The notify callback only logs.
\<close>

fun RetryNotify ::
  "(cluster \<Rightarrow> go_error option \<times> 'v) \<Rightarrow> nat \<Rightarrow> cluster \<Rightarrow> go_error option \<times> 'v \<times> cluster" where
  "RetryNotify operation 0 c =
     (case operation c of
        (None, v) \<Rightarrow> (None, v, c)
      | (Some (Permanent err), v) \<Rightarrow> (Some err, v, c)
      | (Some err, v) \<Rightarrow> (Some err, v, c))"
| "RetryNotify operation (Suc n) c =
     (case operation c of
        (None, v) \<Rightarrow> (None, v, c)
      | (Some (Permanent err), v) \<Rightarrow> (Some err, v, c)
      | (Some err, v) \<Rightarrow> RetryNotify operation n (sleep c))"

section \<open>The resource state waiters\<close>

text \<open>The closure \<^verbatim>\<open>checkForDeletedPV\<close> of \<^verbatim>\<open>waitForDeletedPV\<close>, with the captured \<^verbatim>\<open>pv\<close>.\<close>

definition checkForDeletedPV ::
  "Plugin \<Rightarrow> string \<Rightarrow> cluster \<Rightarrow> go_error option \<times> PersistentVolume option" where
  "checkForDeletedPV p name c =
     (case pvIndexer_GetByKey p c name of
        Inl err \<Rightarrow> (Some err, None)
      | Inr None \<Rightarrow> (None, None)
      | Inr (Some OtherItem) \<Rightarrow>
          (Some (Errorf (''non-PV object '' @ name @ '' found in cache'')), None)
      | Inr (Some (PVItem pv)) \<Rightarrow>
          (if pv_DeletionTimestamp pv = None
           then (Some (Errorf (''PV '' @ name @ '' deletion timestamp not set'')), Some pv)
           else (None, Some pv)))"

definition waitForDeletedPV ::
  "Plugin \<Rightarrow> string \<Rightarrow> Duration \<Rightarrow> cluster \<Rightarrow> PersistentVolume option \<times> go_error option \<times> cluster" where
  "waitForDeletedPV p name maxElapsedTime c =
     (case RetryNotify (checkForDeletedPV p name) (backoff_retries p maxElapsedTime) c of
        (Some err, pv, c') \<Rightarrow>
          (None,
           Some (Errorf (''PV '' @ name @ '' was not deleted after ''
                          @ Seconds_3_2f p maxElapsedTime @ '' seconds'')),
           c')
      | (None, pv, c') \<Rightarrow> (pv, None, c'))"

text \<open>The closure \<^verbatim>\<open>checkForDeletedPV\<close> of \<^verbatim>\<open>waitForPVDisappearance\<close>; it captures nothing.\<close>

definition checkForPVDisappearance :: "Plugin \<Rightarrow> string \<Rightarrow> cluster \<Rightarrow> go_error option \<times> unit" where
  "checkForPVDisappearance p name c =
     (case pvIndexer_GetByKey p c name of
        Inl err \<Rightarrow> (Some err, ())
      | Inr None \<Rightarrow> (None, ())
      | Inr (Some OtherItem) \<Rightarrow>
          (Some (Errorf (''non-PV object '' @ name @ '' found in cache'')), ())
      | Inr (Some (PVItem pv)) \<Rightarrow> (Some (Errorf (''PV '' @ name @ '' still exists'')), ()))"

definition waitForPVDisappearance ::
  "Plugin \<Rightarrow> string \<Rightarrow> Duration \<Rightarrow> cluster \<Rightarrow> go_error option \<times> cluster" where
  "waitForPVDisappearance p name maxElapsedTime c =
     (case RetryNotify (checkForPVDisappearance p name) (backoff_retries p maxElapsedTime) c of
        (Some err, u, c') \<Rightarrow>
          (Some (Errorf (''PV '' @ name @ '' was not fully deleted after ''
                          @ Seconds_3_2f p maxElapsedTime @ '' seconds'')),
           c')
      | (None, u, c') \<Rightarrow> (None, c'))"

text \<open>The closure \<^verbatim>\<open>checkForPVCPhase\<close> of \<^verbatim>\<open>waitForPVCPhase\<close>, with the captured \<^verbatim>\<open>latestPVC\<close>.\<close>

definition checkForPVCPhase ::
  "Plugin \<Rightarrow> PersistentVolumeClaim \<Rightarrow> string \<Rightarrow> cluster
     \<Rightarrow> go_error option \<times> PersistentVolumeClaim option" where
  "checkForPVCPhase p pvc phase c =
     (case getCachedPVCByName p c (pvc_Name pvc) (pvc_Namespace pvc) of
        Inl err \<Rightarrow> (Some err, None)
      | Inr latestPVC \<Rightarrow>
          (if pvc_Phase latestPVC \<noteq> phase
           then (Some (Errorf (''PVC '' @ pvc_Namespace pvc @ ''/'' @ pvc_Name pvc
                                @ '' not yet '' @ phase)),
                 Some latestPVC)
           else (None, Some latestPVC)))"

definition waitForPVCPhase ::
  "Plugin \<Rightarrow> PersistentVolumeClaim \<Rightarrow> string \<Rightarrow> Duration \<Rightarrow> cluster
     \<Rightarrow> PersistentVolumeClaim option \<times> go_error option \<times> cluster" where
  "waitForPVCPhase p pvc phase maxElapsedTime c =
     (case RetryNotify (checkForPVCPhase p pvc phase) (backoff_retries p maxElapsedTime) c of
        (Some err, latestPVC, c') \<Rightarrow>
          (None,
           Some (Errorf (''PVC '' @ pvc_Namespace pvc @ ''/'' @ pvc_Name pvc @ '' was not '' @ phase
                          @ '' after '' @ Seconds_3_2f p maxElapsedTime @ '' seconds'')),
           c')
      | (None, latestPVC, c') \<Rightarrow> (latestPVC, None, c'))"

text \<open>
  The closure \<^verbatim>\<open>checkForDeletedPod\<close> of \<^verbatim>\<open>waitForDeletedOrNonRunningPod\<close>, with the
  captured \<^verbatim>\<open>pod\<close> (left \<open>None\<close> where the read failed: no caller reads it).
\<close>

definition checkForDeletedPod ::
  "Plugin \<Rightarrow> string \<Rightarrow> string \<Rightarrow> cluster \<Rightarrow> go_error option \<times> Pod option" where
  "checkForDeletedPod p name namespace c =
     (case Pods_Get p c namespace name of
        Inl (StatusError reason msg) \<Rightarrow>
          (if reason = StatusReasonNotFound then (None, None)
           else (Some (StatusError reason msg), None))
      | Inl err \<Rightarrow> (Some err, None)
      | Inr None \<Rightarrow>
          (Some (Errorf (''Kubernetes API returned nil for pod '' @ namespace @ ''/'' @ name)), None)
      | Inr (Some pod) \<Rightarrow>
          (if pod_Phase pod = PodRunning
           then (Some (Errorf (''pod '' @ namespace @ ''/'' @ name @ '' phase is '' @ pod_Phase pod)),
                 Some pod)
           else (None, Some pod)))"

definition waitForDeletedOrNonRunningPod ::
  "Plugin \<Rightarrow> string \<Rightarrow> string \<Rightarrow> Duration \<Rightarrow> cluster \<Rightarrow> Pod option \<times> go_error option \<times> cluster" where
  "waitForDeletedOrNonRunningPod p name namespace maxElapsedTime c =
     (case RetryNotify (checkForDeletedPod p name namespace) (backoff_retries p maxElapsedTime) c of
        (Some err, pod, c') \<Rightarrow>
          (None,
           Some (Errorf (''pod '' @ namespace @ ''/'' @ name @ '' was not deleted or non-Running after ''
                          @ Seconds_3_2f p maxElapsedTime @ '' seconds'')),
           c')
      | (None, pod, c') \<Rightarrow> (pod, None, c'))"

section \<open>Patching, converting and listing\<close>

definition removePVFinalizers ::
  "Plugin \<Rightarrow> PersistentVolume \<Rightarrow> cluster \<Rightarrow> (go_error + PersistentVolume) \<times> cluster" where
  "removePVFinalizers p pv c =
     (let pvClone = pv\<lparr>pv_Finalizers := []\<rparr> in
      case patchPV p pv pvClone c of
        (Inl err, c') \<Rightarrow>
          (Inl (Errorf (''could not remove finalizers from PV'' @ '': '' @ Error err)), c')
      | (Inr patchedPV, c') \<Rightarrow> (Inr patchedPV, c'))"

text \<open>
  The loop of \<^verbatim>\<open>removePVCBindCompletedAnnotation\<close> fills a fresh map with every entry of
  the claim's annotations whose key is not the bind-completed one.
\<close>

definition removePVCBindCompletedAnnotation ::
  "Plugin \<Rightarrow> PersistentVolumeClaim \<Rightarrow> cluster \<Rightarrow> (go_error + PersistentVolumeClaim) \<times> cluster" where
  "removePVCBindCompletedAnnotation p pvc c =
     (let pvcClone = pvc\<lparr>pvc_Annotations :=
                           (\<lambda>k. if k \<noteq> AnnBindCompleted p then pvc_Annotations pvc k else None)\<rparr> in
      case patchPVC p pvc pvcClone c of
        (Inl err, c') \<Rightarrow> (Inl err, c')
      | (Inr patchedPVC, c') \<Rightarrow> (Inr patchedPVC, c'))"

definition createCSIPVFromPV ::
  "Plugin \<Rightarrow> PersistentVolume \<Rightarrow> VolumeExternal \<Rightarrow> cluster
     \<Rightarrow> (go_error + PersistentVolume) \<times> cluster" where
  "createCSIPVFromPV p pv volume c =
     (let (readOnly, fsType) =
            (case pv_NFS pv of
               Some nfs \<Rightarrow> (nfs_ReadOnly nfs, [])
             | None \<Rightarrow>
                 (case pv_ISCSI pv of
                    Some iscsi \<Rightarrow> (iscsi_ReadOnly iscsi, iscsi_FSType iscsi)
                  | None \<Rightarrow> (False, [])));
          volumeAttributes =
            [''backendUUID'' \<mapsto> vol_BackendUUID volume,
             ''name'' \<mapsto> cfg_Name (vol_Config volume),
             ''internalName'' \<mapsto> cfg_InternalName (vol_Config volume),
             ''protocol'' \<mapsto> cfg_Protocol (vol_Config volume)];
          csiPV = pv
            \<lparr>pv_ResourceVersion := [],
             pv_UID := [],
             pv_Annotations := (pv_Annotations pv)(AnnDynamicallyProvisioned p \<mapsto> csi_Provisioner p),
             pv_NFS := None,
             pv_ISCSI := None,
             pv_CSI := Some \<lparr>csi_Driver = csi_Provisioner p,
                              csi_VolumeHandle = pv_Name pv,
                              csi_ReadOnly = readOnly,
                              csi_FSType = fsType,
                              csi_VolumeAttributes = volumeAttributes\<rparr>\<rparr>
      in case PersistentVolumes_Create p csiPV c of
           (Inl err, c') \<Rightarrow> (Inl err, c')
         | (Inr created, c') \<Rightarrow> (Inr created, c'))"

text \<open>
  The two loops of \<^verbatim>\<open>getPodsForPVC\<close>, over the volumes of one pod and over the pods,
  threading the pair (\<^verbatim>\<open>ownedPodsForPVC\<close>, \<^verbatim>\<open>nakedPodsForPVC\<close>).
\<close>

fun volumes_loop ::
  "string \<Rightarrow> Pod \<Rightarrow> Volume list \<Rightarrow> string list \<times> string list \<Rightarrow> string list \<times> string list" where
  "volumes_loop claimName pod [] (owned, naked) = (owned, naked)"
| "volumes_loop claimName pod (volume # volumes) (owned, naked) =
     (if vol_ClaimName volume = Some claimName
      then (if pod_OwnerReferences pod = []
            then volumes_loop claimName pod volumes (owned, naked @ [pod_Name pod])
            else volumes_loop claimName pod volumes (owned @ [pod_Name pod], naked))
      else volumes_loop claimName pod volumes (owned, naked))"

fun pods_loop ::
  "string \<Rightarrow> Pod list \<Rightarrow> string list \<times> string list \<Rightarrow> string list \<times> string list" where
  "pods_loop claimName [] acc = acc"
| "pods_loop claimName (pod # pods) acc =
     pods_loop claimName pods (volumes_loop claimName pod (pod_Volumes pod) acc)"

definition getPodsForPVC ::
  "Plugin \<Rightarrow> PersistentVolumeClaim \<Rightarrow> cluster \<Rightarrow> go_error + (string list \<times> string list)" where
  "getPodsForPVC p pvc c =
     (case Pods_List p c (pvc_Namespace pvc) of
        Inl err \<Rightarrow> Inl err
      | Inr items \<Rightarrow>
          (if items = [] then Inr ([], [])
           else Inr (pods_loop (pvc_Name pvc) items ([], []))))"

section \<open>The deletion sub-protocol\<close>

definition deletePVForUpgrade :: "Plugin \<Rightarrow> PersistentVolume \<Rightarrow> cluster \<Rightarrow> go_error option \<times> cluster" where
  "deletePVForUpgrade p pv c =
     (let hasFinalizers = (pv_Finalizers pv \<noteq> []) in
      case pv_DeletionTimestamp pv of
        None \<Rightarrow>
          (case PersistentVolumes_Delete p (pv_Name pv) c of
             (Some err, c1) \<Rightarrow> (Some err, c1)
           | (None, c1) \<Rightarrow>
               (case waitForDeletedPV p (pv_Name pv) (PVDeleteWaitPeriod p) c1 of
                  (deletedPV, Some err, c2) \<Rightarrow> (Some err, c2)
                | (Some deletedPV, None, c2) \<Rightarrow>
                    (case removePVFinalizers p deletedPV c2 of
                       (Inl err, c3) \<Rightarrow> (Some err, c3)
                     | (Inr patchedPV, c3) \<Rightarrow>
                         waitForPVDisappearance p (pv_Name pv) (PVDeleteWaitPeriod p) c3)
                | (None, None, c2) \<Rightarrow>
                    waitForPVDisappearance p (pv_Name pv) (PVDeleteWaitPeriod p) c2))
      | Some deletionTimestamp \<Rightarrow>
          (if hasFinalizers
           then (case removePVFinalizers p pv c of
                   (Inl err, c1) \<Rightarrow> (Some err, c1)
                 | (Inr patchedPV, c1) \<Rightarrow>
                     waitForPVDisappearance p (pv_Name pv) (PVDeleteWaitPeriod p) c1)
           else waitForPVDisappearance p (pv_Name pv) (PVDeleteWaitPeriod p) c))"

section \<open>The migration orchestrator\<close>

text \<open>
  The two loops of \<^verbatim>\<open>UpgradeVolume\<close> over \<^verbatim>\<open>ownedPodsForPVC\<close>: the first deletes each
  owned pod, the second waits for each to be gone or not running. Each stops at the
  first failure, with the error \<^verbatim>\<open>UpgradeVolume\<close> returns there.
\<close>

fun deleteOwnedPods :: "Plugin \<Rightarrow> string \<Rightarrow> string list \<Rightarrow> cluster \<Rightarrow> go_error option \<times> cluster" where
  "deleteOwnedPods p namespace [] c = (None, c)"
| "deleteOwnedPods p namespace (podName # podNames) c =
     (case Pods_Delete p namespace podName c of
        (Some err, c') \<Rightarrow>
          (Some (Errorf (''PV upgrade: could not delete a pod using the PV'' @ '': '' @ Error err)), c')
      | (None, c') \<Rightarrow> deleteOwnedPods p namespace podNames c')"

fun waitForOwnedPods :: "Plugin \<Rightarrow> string \<Rightarrow> string list \<Rightarrow> cluster \<Rightarrow> go_error option \<times> cluster" where
  "waitForOwnedPods p namespace [] c = (None, c)"
| "waitForOwnedPods p namespace (podName # podNames) c =
     (case waitForDeletedOrNonRunningPod p podName namespace (PodDeleteWaitPeriod p) c of
        (pod, Some err, c') \<Rightarrow>
          (Some (Errorf (''PV upgrade: unexpected pod status'' @ '': '' @ Error err)), c')
      | (pod, None, c') \<Rightarrow> waitForOwnedPods p namespace podNames c')"

definition UpgradeVolume ::
  "Plugin \<Rightarrow> UpgradeVolumeRequest \<Rightarrow> cluster \<Rightarrow> (go_error + VolumeExternal) \<times> cluster" where
  "UpgradeVolume p request c =
    (case GetVolume p c (req_Volume request) of
      Inl err \<Rightarrow>
        (Inl (Errorf (''PV upgrade: could not find the volume to upgrade'' @ '': '' @ Error err)), c)
    | Inr volume \<Rightarrow>
    if vol_State volume \<noteq> VolumeStateOnline p
    then (Inl (Errorf ''PV upgrade: Trident volume to be upgraded must be in online state''), c)
    else
    (case getCachedPVByName p c (req_Volume request) of
      Inl err \<Rightarrow>
        (Inl (Errorf (''PV upgrade: could not find the PV to upgrade'' @ '': '' @ Error err)), c)
    | Inr pv \<Rightarrow>
    if pv_NFS pv = None \<and> pv_ISCSI pv = None
    then (Inl (Errorf ''PV to be upgraded must be of type NFS or iSCSI''), c)
    else if pv_Phase pv \<noteq> VolumeBound
    then (Inl (Errorf ''PV upgrade: PV must be bound to a PVC''), c)
    else if index_map (pv_Annotations pv) (AnnDynamicallyProvisioned p) \<noteq> csi_LegacyProvisioner p
    then (Inl (Errorf ''PV upgrade: PV must have been provisioned by Trident''), c)
    else
    (case pv_ClaimRef pv of
      None \<Rightarrow> (Inl (RuntimePanic ''invalid memory address or nil pointer dereference''), c)
    | Some claimRef \<Rightarrow>
    let namespace = ref_Namespace claimRef in
    (case getCachedPVCByName p c (ref_Name claimRef) (ref_Namespace claimRef) of
      Inl err \<Rightarrow>
        (Inl (Errorf (''PV upgrade: could not find the PVC bound to the PV'' @ '': '' @ Error err)), c)
    | Inr pvc \<Rightarrow>
    (case getPodsForPVC p pvc c of
      Inl err \<Rightarrow>
        (Inl (Errorf (''PV upgrade: could not check for pods using the PV'' @ '': '' @ Error err)), c)
    | Inr (ownedPodsForPVC, nakedPodsForPVC) \<Rightarrow>
    if nakedPodsForPVC \<noteq> []
    then (Inl (Errorf (''PV upgrade: one or more naked pods are using the PV (''
                        @ Join nakedPodsForPVC '','' @ ''); ''
                        @ ''shut down these pods manually and try again'')), c)
    else if (case pv_Finalizers pv of
               [] \<Rightarrow> False
             | finalizer # finalizers \<Rightarrow> finalizer \<noteq> FinalizerPVProtection p \<or> finalizers \<noteq> [])
    then (Inl (Errorf ''PV upgrade: PV has a finalizer other than kubernetes.io/pv-protection''), c)
    else
    (case deletePVForUpgrade p pv c of
      (Some err, c1) \<Rightarrow>
        (Inl (Errorf (''PV upgrade: could not delete the PV'' @ '': '' @ Error err)), c1)
    | (None, c1) \<Rightarrow>
    (case waitForPVCPhase p pvc ClaimLost (PVDeleteWaitPeriod p) c1 of
      (latest, Some err, c2) \<Rightarrow>
        (Inl (Errorf (''PV upgrade: PVC did not reach the Lost state'' @ '': '' @ Error err)), c2)
    | (None, None, c2) \<Rightarrow>
        (Inl (RuntimePanic ''invalid memory address or nil pointer dereference''), c2)
    | (Some lostPVC, None, c2) \<Rightarrow>
    (case deleteOwnedPods p namespace ownedPodsForPVC c2 of
      (Some err, c3) \<Rightarrow> (Inl err, c3)
    | (None, c3) \<Rightarrow>
    (case waitForOwnedPods p namespace ownedPodsForPVC c3 of
      (Some err, c4) \<Rightarrow> (Inl err, c4)
    | (None, c4) \<Rightarrow>
    (case removePVCBindCompletedAnnotation p lostPVC c4 of
      (Inl err, c5) \<Rightarrow>
        (Inl (Errorf (''PV upgrade: could not remove bind-completed annotation from PVC''
                       @ '': '' @ Error err)), c5)
    | (Inr unboundLostPVC, c5) \<Rightarrow>
    (case createCSIPVFromPV p pv volume c5 of
      (Inl err, c6) \<Rightarrow>
        (Inl (Errorf (''PV upgrade: could not create the CSI version of PV being upgraded''
                       @ '': '' @ Error err)), c6)
    | (Inr csiPV, c6) \<Rightarrow>
    (case waitForPVCPhase p unboundLostPVC ClaimBound (PVDeleteWaitPeriod p) c6 of
      (latest, Some err, c7) \<Rightarrow>
        (Inl (Errorf (''PV upgrade: PVC did not reach the Bound state'' @ '': '' @ Error err)), c7)
    | (boundPVC, None, c7) \<Rightarrow> (Inr volume, c7)))))))))))))"

section \<open>A concrete cluster\<close>

text \<open>
  One volume \<open>pv1\<close> of the registry, its legacy PV bound to the claim \<open>ns/pvc1\<close>, and
  pods of the namespace \<open>ns\<close>: the inputs at which the theorems below are evaluated.
\<close>

definition volume1 :: VolumeExternal where
  "volume1 =
     \<lparr>vol_Config = \<lparr>cfg_Name = ''pv1'', cfg_InternalName = ''trident_pv1'', cfg_Protocol = ''file''\<rparr>,
      vol_BackendUUID = ''backend-1'',
      vol_State = ''online''\<rparr>"

definition nfs1 :: NFSVolumeSource where
  "nfs1 = \<lparr>nfs_Server = ''10.0.0.1'', nfs_Path = ''/legacy_pv1'', nfs_ReadOnly = True\<rparr>"

definition iscsi1 :: ISCSIPersistentVolumeSource where
  "iscsi1 =
     \<lparr>iscsi_TargetPortal = ''10.0.0.2:3260'', iscsi_IQN = ''iqn.2019-01.io.legacy:pv1'',
      iscsi_FSType = ''ext4'', iscsi_ReadOnly = False\<rparr>"

definition pv1 :: PersistentVolume where
  "pv1 =
     \<lparr>pv_Name = ''pv1'',
      pv_ResourceVersion = ''7'',
      pv_UID = ''uid-1'',
      pv_Annotations = [''pv.kubernetes.io/provisioned-by'' \<mapsto> ''netapp.io/trident''],
      pv_Finalizers = [],
      pv_DeletionTimestamp = None,
      pv_NFS = Some nfs1,
      pv_ISCSI = None,
      pv_CSI = None,
      pv_ClaimRef = Some \<lparr>ref_Namespace = ''ns'', ref_Name = ''pvc1''\<rparr>,
      pv_Phase = ''Bound''\<rparr>"

definition pvc1 :: PersistentVolumeClaim where
  "pvc1 =
     \<lparr>pvc_Name = ''pvc1'',
      pvc_Namespace = ''ns'',
      pvc_ResourceVersion = ''3'',
      pvc_Annotations = [''pv.kubernetes.io/bind-completed'' \<mapsto> ''yes'', ''team'' \<mapsto> ''a''],
      pvc_VolumeName = ''pv1'',
      pvc_Phase = ''Bound''\<rparr>"

definition pod1 :: Pod where
  "pod1 =
     \<lparr>pod_Name = ''pod1'',
      pod_OwnerReferences = [''replicaset-1''],
      pod_Volumes = [\<lparr>vol_Name = ''data'', vol_ClaimName = Some ''pvc1''\<rparr>],
      pod_Phase = ''Running''\<rparr>"

definition pod2 :: Pod where
  "pod2 =
     \<lparr>pod_Name = ''pod2'',
      pod_OwnerReferences = [],
      pod_Volumes = [\<lparr>vol_Name = ''a'', vol_ClaimName = Some ''pvc1''\<rparr>,
                     \<lparr>vol_Name = ''scratch'', vol_ClaimName = None\<rparr>,
                     \<lparr>vol_Name = ''b'', vol_ClaimName = Some ''pvc1''\<rparr>],
      pod_Phase = ''Running''\<rparr>"

definition pod3 :: Pod where
  "pod3 =
     \<lparr>pod_Name = ''pod3'',
      pod_OwnerReferences = [],
      pod_Volumes = [\<lparr>vol_Name = ''data'', vol_ClaimName = Some ''pvc1''\<rparr>],
      pod_Phase = ''Running''\<rparr>"

fun is_CreatePV :: "request \<Rightarrow> bool" where
  "is_CreatePV (CreatePV pv) = True"
| "is_CreatePV r = False"

fun is_PatchPV :: "request \<Rightarrow> bool" where
  "is_PatchPV (PatchPV pv pvClone) = True"
| "is_PatchPV r = False"

fun is_DeletePod :: "request \<Rightarrow> bool" where
  "is_DeletePod (DeletePod namespace name) = True"
| "is_DeletePod r = False"

text \<open>
  A cluster that behaves: every call succeeds; once the delete is issued the cached PV
  \<open>pv\<close> is gone, or, when it has finalizers, carries a deletion timestamp until they
  are patched away; the claim is \<open>Lost\<close> from the first request until the new PV is
  created; a deleted pod is not found.
\<close>

definition plugin1 :: "PersistentVolume \<Rightarrow> Pod list \<Rightarrow> Plugin" where
  "plugin1 pv pods =
     \<lparr>GetVolume = (\<lambda>c name. if name = ''pv1'' then Inr volume1 else Inl (Errorf ''volume not found'')),
      getCachedPVByName = (\<lambda>c name. if name = ''pv1'' then Inr pv else Inl (Errorf ''PV not found'')),
      getCachedPVCByName = (\<lambda>c name namespace.
        if name = ''pvc1'' \<and> namespace = ''ns''
        then Inr (pvc1\<lparr>pvc_Phase :=
                    (if requests c = [] \<or> list_ex is_CreatePV (requests c) then ''Bound'' else ''Lost'')\<rparr>)
        else Inl (Errorf ''PVC not found'')),
      pvIndexer_GetByKey = (\<lambda>c name.
        if requests c = [] then Inr (Some (PVItem pv))
        else if pv_Finalizers pv = [] \<or> list_ex is_PatchPV (requests c) then Inr None
        else Inr (Some (PVItem (pv\<lparr>pv_DeletionTimestamp := Some (now c)\<rparr>)))),
      Pods_List = (\<lambda>c namespace. if namespace = ''ns'' then Inr pods else Inr []),
      Pods_Get = (\<lambda>c namespace name.
        if list_ex is_DeletePod (requests c) then Inl (StatusError ''NotFound'' ''pod not found'')
        else Inr (Some pod1)),
      PersistentVolumes_Delete_answer = (\<lambda>c name. None),
      PersistentVolumes_Create_answer = (\<lambda>c created. Inr created),
      Pods_Delete_answer = (\<lambda>c namespace name. None),
      patchPV_answer = (\<lambda>c old new. Inr new),
      patchPVC_answer = (\<lambda>c old new. Inr new),
      backoff_retries = (\<lambda>d. Suc (Suc 0)),
      Seconds_3_2f = (\<lambda>d. ''120.00''),
      PVDeleteWaitPeriod = 120000000000,
      PodDeleteWaitPeriod = 120000000000,
      VolumeStateOnline = ''online'',
      AnnDynamicallyProvisioned = ''pv.kubernetes.io/provisioned-by'',
      AnnBindCompleted = ''pv.kubernetes.io/bind-completed'',
      FinalizerPVProtection = ''kubernetes.io/pv-protection'',
      csi_Provisioner = ''csi.trident.netapp.io'',
      csi_LegacyProvisioner = ''netapp.io/trident''\<rparr>"

definition request1 :: UpgradeVolumeRequest where
  "request1 = \<lparr>req_Type = ''csi'', req_Volume = ''pv1''\<rparr>"

definition cluster0 :: cluster where
  "cluster0 = \<lparr>now = 0, requests = []\<rparr>"

text \<open>Variants of the PV: with neither legacy descriptor, with both, and already marked deleted.\<close>

definition pv_none :: PersistentVolume where
  "pv_none = pv1\<lparr>pv_NFS := None\<rparr>"

definition pv_both :: PersistentVolume where
  "pv_both = pv1\<lparr>pv_ISCSI := Some iscsi1\<rparr>"

definition pv_deleting :: PersistentVolume where
  "pv_deleting = pv1\<lparr>pv_DeletionTimestamp := Some 5\<rparr>"

text \<open>
  Variants of the cluster: the cached PV never gets a deletion timestamp; the cache holds
  a non-PV object under the key at the first poll only, or at every poll; the PV marked
  deleted leaves the cache after one backoff sleep; the claim stays \<open>Bound\<close>.
\<close>

definition plugin_stuck :: Plugin where
  "plugin_stuck = (plugin1 pv1 [])\<lparr>pvIndexer_GetByKey := (\<lambda>c name. Inr (Some (PVItem pv1)))\<rparr>"

definition plugin_mismatch_once :: Plugin where
  "plugin_mismatch_once =
     (plugin1 pv1 [])\<lparr>pvIndexer_GetByKey :=
        (\<lambda>c name. if now c = 0 then Inr (Some OtherItem) else Inr None)\<rparr>"

definition plugin_mismatch_always :: Plugin where
  "plugin_mismatch_always =
     (plugin1 pv1 [])\<lparr>pvIndexer_GetByKey := (\<lambda>c name. Inr (Some OtherItem))\<rparr>"

definition plugin_slow_cache :: Plugin where
  "plugin_slow_cache =
     (plugin1 pv_deleting [])\<lparr>pvIndexer_GetByKey :=
        (\<lambda>c name. if now c < 1 then Inr (Some (PVItem pv_deleting)) else Inr None)\<rparr>"

definition plugin_never_lost :: Plugin where
  "plugin_never_lost =
     (plugin1 pv1 [pod1])\<lparr>getCachedPVCByName := (\<lambda>c name namespace. Inr pvc1)\<rparr>"

section \<open>Unfolding sets and facts about the poller\<close>

lemmas cluster_defs =
  volume1_def nfs1_def iscsi1_def pv1_def pvc1_def pod1_def pod2_def pod3_def plugin1_def
  request1_def cluster0_def pv_none_def pv_both_def pv_deleting_def

lemmas k8s_defs =
  VolumeBound_def ClaimBound_def ClaimLost_def PodRunning_def StatusReasonNotFound_def index_map_def

lemmas call_defs =
  Let_def issue_def sleep_def PersistentVolumes_Delete_def PersistentVolumes_Create_def
  Pods_Delete_def patchPV_def patchPVC_def

lemmas waiter_defs =
  checkForDeletedPV_def waitForDeletedPV_def checkForPVDisappearance_def waitForPVDisappearance_def
  checkForPVCPhase_def waitForPVCPhase_def checkForDeletedPod_def waitForDeletedOrNonRunningPod_def

lemmas step_defs =
  removePVFinalizers_def removePVCBindCompletedAnnotation_def createCSIPVFromPV_def
  getPodsForPVC_def deletePVForUpgrade_def

lemma sleep_requests: "requests (sleep c) = requests c"
  by (simp add: sleep_def)

lemma sleep_advance: "(sleep c)\<lparr>now := now (sleep c) + t\<rparr> = c\<lparr>now := now c + Suc t\<rparr>"
  by (simp add: sleep_def)

text \<open>The poller issues no request: it only polls and sleeps.\<close>

lemma RetryNotify_requests:
  "RetryNotify operation n c = (e, v, c') \<Longrightarrow> requests c' = requests c"
proof (induction n arbitrary: c)
  case 0
  then show ?case
    by (auto split: prod.splits option.splits go_error.splits)
next
  case (Suc n)
  then show ?case
    by (auto simp: sleep_requests split: prod.splits option.splits go_error.splits)
qed

text \<open>When the poller reports success, the operation succeeded in the state it returns.\<close>

lemma RetryNotify_success_last:
  "RetryNotify operation n c = (None, v, c') \<Longrightarrow> operation c' = (None, v)"
proof (induction n arbitrary: c)
  case 0
  then show ?case
    by (auto split: prod.splits option.splits go_error.splits)
next
  case (Suc n)
  then show ?case
    by (auto split: prod.splits option.splits go_error.splits)
qed

lemma RetryNotify_success_now:
  "operation c = (None, v) \<Longrightarrow> RetryNotify operation n c = (None, v, c)"
  by (cases n) simp_all

text \<open>An operation that fails at every attempt the backoff grants makes the poller fail.\<close>

lemma RetryNotify_all_fail:
  "(\<forall>t\<le>n. fst (operation (c\<lparr>now := now c + t\<rparr>)) \<noteq> None)
     \<Longrightarrow> fst (RetryNotify operation n c) \<noteq> None"
proof (induction n arbitrary: c)
  case 0
  then show ?case
    by (auto split: prod.splits option.splits go_error.splits)
next
  case (Suc n)
  have here: "fst (operation c) \<noteq> None"
    using Suc.prems [rule_format, of 0] by simp
  have later: "\<forall>t\<le>n. fst (operation ((sleep c)\<lparr>now := now (sleep c) + t\<rparr>)) \<noteq> None"
  proof (intro allI impI)
    fix t assume "t \<le> n"
    then show "fst (operation ((sleep c)\<lparr>now := now (sleep c) + t\<rparr>)) \<noteq> None"
      using Suc.prems [rule_format, of "Suc t"] by (simp add: sleep_advance)
  qed
  from Suc.IH [OF later] here show ?case
    by (auto split: prod.splits option.splits go_error.splits)
qed

text \<open>
  The same \<^verbatim>\<open>fmt.Errorf\<close> error at every attempt: the poller uses every retry and
  returns that error.
\<close>

lemma RetryNotify_same_failure:
  "(\<forall>t\<le>n. operation (c\<lparr>now := now c + t\<rparr>) = (Some (Errorf m), v))
     \<Longrightarrow> RetryNotify operation n c = (Some (Errorf m), v, c\<lparr>now := now c + n\<rparr>)"
proof (induction n arbitrary: c)
  case 0
  then show ?case by simp
next
  case (Suc n)
  have here: "operation c = (Some (Errorf m), v)"
    using Suc.prems [rule_format, of 0] by simp
  have later: "\<forall>t\<le>n. operation ((sleep c)\<lparr>now := now (sleep c) + t\<rparr>) = (Some (Errorf m), v)"
  proof (intro allI impI)
    fix t assume "t \<le> n"
    then show "operation ((sleep c)\<lparr>now := now (sleep c) + t\<rparr>) = (Some (Errorf m), v)"
      using Suc.prems [rule_format, of "Suc t"] by (simp add: sleep_advance)
  qed
  from Suc.IH [OF later] here show ?case
    by (simp add: sleep_advance)
qed

section \<open>Listing the pods that use a claim\<close>

lemma volumes_loop_replicate:
  "volumes_loop claimName pod volumes (owned, naked) =
     (if pod_OwnerReferences pod = []
      then (owned,
            naked @ replicate (length (filter (\<lambda>v. vol_ClaimName v = Some claimName) volumes))
                      (pod_Name pod))
      else (owned @ replicate (length (filter (\<lambda>v. vol_ClaimName v = Some claimName) volumes))
                      (pod_Name pod),
            naked))"
  by (induction volumes arbitrary: owned naked) (simp_all add: replicate_append_same)

lemma pods_loop_concat:
  "pods_loop claimName pods (owned, naked) =
     (owned @ concat (map (\<lambda>pod. if pod_OwnerReferences pod = [] then []
          else replicate (length (filter (\<lambda>v. vol_ClaimName v = Some claimName) (pod_Volumes pod)))
                 (pod_Name pod)) pods),
      naked @ concat (map (\<lambda>pod. if pod_OwnerReferences pod = []
          then replicate (length (filter (\<lambda>v. vol_ClaimName v = Some claimName) (pod_Volumes pod)))
                 (pod_Name pod)
          else []) pods))"
  by (induction pods arbitrary: owned naked) (simp_all add: volumes_loop_replicate)

text \<open>
  C9. \<^verbatim>\<open>getPodsForPVC\<close> fails when the pod list cannot be read. Otherwise, going through
  the pods of the claim's namespace in order, it appends the pod's name once for every
  entry of the pod's volumes that names the claim (a pod with \<open>k\<close> such entries appears
  \<open>k\<close> times), and each occurrence goes to one list only: the naked list when the pod
  has no owner reference, the owned list when it has one.
\<close>

theorem getPodsForPVC_once_per_volume_entry:
  "getPodsForPVC p pvc c =
     (case Pods_List p c (pvc_Namespace pvc) of
        Inl err \<Rightarrow> Inl err
      | Inr pods \<Rightarrow>
          Inr (concat (map (\<lambda>pod. if pod_OwnerReferences pod = [] then []
                 else replicate
                        (length (filter (\<lambda>v. vol_ClaimName v = Some (pvc_Name pvc)) (pod_Volumes pod)))
                        (pod_Name pod)) pods),
               concat (map (\<lambda>pod. if pod_OwnerReferences pod = []
                 then replicate
                        (length (filter (\<lambda>v. vol_ClaimName v = Some (pvc_Name pvc)) (pod_Volumes pod)))
                        (pod_Name pod)
                 else []) pods)))"
  by (simp add: getPodsForPVC_def pods_loop_concat split: sum.splits)

theorem getPodsForPVC_once_per_volume_entry_witness:
  "getPodsForPVC (plugin1 pv1 [pod1, pod2, pod3]) pvc1 cluster0
     = Inr ([''pod1''], [''pod2'', ''pod2'', ''pod3''])"
  using getPodsForPVC_once_per_volume_entry [of "plugin1 pv1 [pod1, pod2, pod3]" pvc1 cluster0]
  by (simp add: cluster_defs)

section \<open>Converting the descriptor and stripping the annotation\<close>

lemma result_case_id:
  "(case x of (Inl err, c') \<Rightarrow> (Inl err, c') | (Inr v, c') \<Rightarrow> (Inr v, c')) = x"
  by (simp split: prod.splits sum.splits)

text \<open>
  C4. For every PV with an NFS descriptor whose read-only flag is set, and every volume
  record, \<^verbatim>\<open>createCSIPVFromPV\<close> submits for creation a PV whose CSI descriptor is
  read-only, has the empty filesystem type, has the original PV's name as volume handle,
  and has an attribute map with exactly the keys \<open>backendUUID\<close>, \<open>name\<close>,
  \<open>internalName\<close> and \<open>protocol\<close>, valued from the volume record. The map is the same
  whatever PV is converted, so no value of the legacy descriptor reaches it.
\<close>

theorem createCSIPVFromPV_nfs_read_only:
  assumes "pv_NFS pv = Some nfs" and "nfs_ReadOnly nfs"
  shows "\<exists>csiPV d.
           createCSIPVFromPV p pv volume c
             = (PersistentVolumes_Create_answer p c csiPV, c\<lparr>requests := requests c @ [CreatePV csiPV]\<rparr>)
         \<and> pv_CSI csiPV = Some d
         \<and> csi_ReadOnly d
         \<and> csi_FSType d = []
         \<and> csi_VolumeHandle d = pv_Name pv
         \<and> dom (csi_VolumeAttributes d) = {''backendUUID'', ''name'', ''internalName'', ''protocol''}
         \<and> csi_VolumeAttributes d ''backendUUID'' = Some (vol_BackendUUID volume)
         \<and> csi_VolumeAttributes d ''name'' = Some (cfg_Name (vol_Config volume))
         \<and> csi_VolumeAttributes d ''internalName'' = Some (cfg_InternalName (vol_Config volume))
         \<and> csi_VolumeAttributes d ''protocol'' = Some (cfg_Protocol (vol_Config volume))
         \<and> (\<forall>pv'. \<exists>csiPV' d'.
                snd (createCSIPVFromPV p pv' volume c) = c\<lparr>requests := requests c @ [CreatePV csiPV']\<rparr>
              \<and> pv_CSI csiPV' = Some d'
              \<and> csi_VolumeAttributes d' = csi_VolumeAttributes d)"
proof -
  define attrs where "attrs =
    [''backendUUID'' \<mapsto> vol_BackendUUID volume,
     ''name'' \<mapsto> cfg_Name (vol_Config volume),
     ''internalName'' \<mapsto> cfg_InternalName (vol_Config volume),
     ''protocol'' \<mapsto> cfg_Protocol (vol_Config volume)]"
  define descriptor where "descriptor readOnly fsType =
    \<lparr>csi_Driver = csi_Provisioner p, csi_VolumeHandle = pv_Name pv, csi_ReadOnly = readOnly,
     csi_FSType = fsType, csi_VolumeAttributes = attrs\<rparr>" for readOnly fsType
  define built where "built q readOnly fsType =
    q\<lparr>pv_ResourceVersion := [], pv_UID := [],
      pv_Annotations := (pv_Annotations q)(AnnDynamicallyProvisioned p \<mapsto> csi_Provisioner p),
      pv_NFS := None, pv_ISCSI := None,
      pv_CSI := Some \<lparr>csi_Driver = csi_Provisioner p, csi_VolumeHandle = pv_Name q,
                       csi_ReadOnly = readOnly, csi_FSType = fsType,
                       csi_VolumeAttributes = attrs\<rparr>\<rparr>"
    for q :: PersistentVolume and readOnly fsType
  have run: "createCSIPVFromPV p pv volume c
      = (PersistentVolumes_Create_answer p c (built pv True []),
         c\<lparr>requests := requests c @ [CreatePV (built pv True [])]\<rparr>)"
    using assms
    by (simp add: createCSIPVFromPV_def PersistentVolumes_Create_def issue_def Let_def
          result_case_id built_def attrs_def)
  define ro where "ro q = (case pv_NFS q of Some nfs \<Rightarrow> nfs_ReadOnly nfs
      | None \<Rightarrow> (case pv_ISCSI q of Some iscsi \<Rightarrow> iscsi_ReadOnly iscsi | None \<Rightarrow> False))"
    for q :: PersistentVolume
  define fs where "fs q = (case pv_NFS q of Some nfs \<Rightarrow> []
      | None \<Rightarrow> (case pv_ISCSI q of Some iscsi \<Rightarrow> iscsi_FSType iscsi | None \<Rightarrow> []))"
    for q :: PersistentVolume
  have any: "snd (createCSIPVFromPV p q volume c)
      = c\<lparr>requests := requests c @ [CreatePV (built q (ro q) (fs q))]\<rparr>" for q
    by (cases "pv_NFS q"; cases "pv_ISCSI q")
       (simp_all add: createCSIPVFromPV_def PersistentVolumes_Create_def issue_def Let_def
          result_case_id built_def attrs_def ro_def fs_def)
  have keys: "dom attrs = {''backendUUID'', ''name'', ''internalName'', ''protocol''}"
    by (auto simp: attrs_def)
  have others: "\<forall>pv'. \<exists>csiPV' d'.
      snd (createCSIPVFromPV p pv' volume c) = c\<lparr>requests := requests c @ [CreatePV csiPV']\<rparr>
      \<and> pv_CSI csiPV' = Some d' \<and> csi_VolumeAttributes d' = attrs"
  proof
    fix q
    show "\<exists>csiPV' d'.
      snd (createCSIPVFromPV p q volume c) = c\<lparr>requests := requests c @ [CreatePV csiPV']\<rparr>
      \<and> pv_CSI csiPV' = Some d' \<and> csi_VolumeAttributes d' = attrs"
      using any [of q]
      by (intro exI [of _ "built q (ro q) (fs q)"]
            exI [of _ "the (pv_CSI (built q (ro q) (fs q)))"])
         (simp add: built_def)
  qed
  show ?thesis
    using run keys others
    by (intro exI [of _ "built pv True []"] exI [of _ "descriptor True []"])
       (simp add: built_def descriptor_def attrs_def)
qed

theorem createCSIPVFromPV_nfs_read_only_witness:
  "\<exists>csiPV d.
      snd (createCSIPVFromPV (plugin1 pv1 []) pv1 volume1 cluster0) = \<lparr>now = 0, requests = [CreatePV csiPV]\<rparr>
    \<and> pv_CSI csiPV = Some d
    \<and> csi_ReadOnly d
    \<and> csi_FSType d = []
    \<and> csi_VolumeHandle d = ''pv1''
    \<and> dom (csi_VolumeAttributes d) = {''backendUUID'', ''name'', ''internalName'', ''protocol''}
    \<and> csi_VolumeAttributes d ''backendUUID'' = Some ''backend-1''
    \<and> csi_VolumeAttributes d ''name'' = Some ''pv1''
    \<and> csi_VolumeAttributes d ''internalName'' = Some ''trident_pv1''
    \<and> csi_VolumeAttributes d ''protocol'' = Some ''file''"
proof -
  have nfs: "pv_NFS pv1 = Some nfs1" and ro: "nfs_ReadOnly nfs1"
    by (simp_all add: pv1_def nfs1_def)
  show ?thesis
    using createCSIPVFromPV_nfs_read_only [OF nfs ro, of "plugin1 pv1 []" volume1 cluster0]
    apply (elim exE conjE)
    subgoal for csiPV d
      by (intro exI [of _ csiPV] exI [of _ d]) (simp add: cluster0_def pv1_def volume1_def)
    done
qed

text \<open>
  C10. \<^verbatim>\<open>removePVCBindCompletedAnnotation\<close> submits one patch, of the claim against a
  clone whose annotations are the claim's without the bind-completed key (every other
  key keeps its value) and whose other fields are the claim's, and returns what the
  patch answers.
\<close>

theorem removePVCBindCompletedAnnotation_frame:
  "\<exists>pvcClone.
      removePVCBindCompletedAnnotation p pvc c
        = (patchPVC_answer p c pvc pvcClone, c\<lparr>requests := requests c @ [PatchPVC pvc pvcClone]\<rparr>)
    \<and> pvc_Annotations pvcClone = (pvc_Annotations pvc)(AnnBindCompleted p := None)
    \<and> pvcClone\<lparr>pvc_Annotations := pvc_Annotations pvc\<rparr> = pvc"
  by (intro exI [of _ "pvc\<lparr>pvc_Annotations :=
         (\<lambda>k. if k \<noteq> AnnBindCompleted p then pvc_Annotations pvc k else None)\<rparr>"])
     (simp add: removePVCBindCompletedAnnotation_def patchPVC_def issue_def Let_def
        result_case_id fun_eq_iff)



theorem removePVCBindCompletedAnnotation_frame_witness:
  "\<exists>pvcClone.
      snd (removePVCBindCompletedAnnotation (plugin1 pv1 []) pvc1 cluster0)
        = \<lparr>now = 0, requests = [PatchPVC pvc1 pvcClone]\<rparr>
    \<and> pvc_Annotations pvcClone ''pv.kubernetes.io/bind-completed'' = None
    \<and> pvc_Annotations pvcClone ''team'' = Some ''a''
    \<and> pvcClone\<lparr>pvc_Annotations := pvc_Annotations pvc1\<rparr> = pvc1"
  using removePVCBindCompletedAnnotation_frame [of "plugin1 pv1 []" pvc1 cluster0]
  apply (elim exE conjE)
  subgoal for pvcClone
    by (intro exI [of _ pvcClone]) (simp add: cluster0_def pvc1_def plugin1_def)
  done

section \<open>The deletion-marker waiter at its deadline\<close>

text \<open>
  C2. Whenever \<^verbatim>\<open>waitForDeletedPV\<close> returns an error, the PV it returns with it is nil:
  at a timeout the last PV seen by the closure is dropped, although the comment above the
  function lists the pair (PV, error) for that case.
\<close>

theorem waitForDeletedPV_error_returns_nil:
  "waitForDeletedPV p name maxElapsedTime c = (pv, Some err, c') \<Longrightarrow> pv = None"
  by (auto simp: waitForDeletedPV_def split: prod.splits option.splits)

theorem waitForDeletedPV_error_returns_nil_witness:
  "RetryNotify (checkForDeletedPV plugin_stuck ''pv1'') (Suc (Suc 0)) cluster0
     = (Some (Errorf ''PV pv1 deletion timestamp not set''), Some pv1, \<lparr>now = 2, requests = []\<rparr>)
   \<and> waitForDeletedPV plugin_stuck ''pv1'' 120000000000 cluster0
     = (None, Some (Errorf ''PV pv1 was not deleted after 120.00 seconds''), \<lparr>now = 2, requests = []\<rparr>)"
proof -
  have run: "waitForDeletedPV plugin_stuck ''pv1'' 120000000000 cluster0
     = (fst (waitForDeletedPV plugin_stuck ''pv1'' 120000000000 cluster0),
        Some (Errorf ''PV pv1 was not deleted after 120.00 seconds''), \<lparr>now = 2, requests = []\<rparr>)"
    by (simp add: waitForDeletedPV_def checkForDeletedPV_def plugin_stuck_def cluster_defs sleep_def)
  have nil: "fst (waitForDeletedPV plugin_stuck ''pv1'' 120000000000 cluster0) = None"
    by (rule waitForDeletedPV_error_returns_nil [OF run])
  have poll: "RetryNotify (checkForDeletedPV plugin_stuck ''pv1'') (Suc (Suc 0)) cluster0
     = (Some (Errorf ''PV pv1 deletion timestamp not set''), Some pv1, \<lparr>now = 2, requests = []\<rparr>)"
    by (simp add: checkForDeletedPV_def plugin_stuck_def cluster_defs sleep_def)
  from run nil poll show ?thesis by simp
qed

section \<open>A type mismatch in the cache\<close>

text \<open>
  C3, as stated, fails: the cache holds a non-PV object under the key at the first poll
  and nothing afterwards; both waiters sleep once, poll again and return success.
\<close>

theorem waiters_abort_on_type_mismatch_counterexample:
  "pvIndexer_GetByKey plugin_mismatch_once cluster0 ''pv1'' = Inr (Some OtherItem)
   \<and> waitForPVDisappearance plugin_mismatch_once ''pv1'' 120000000000 cluster0
         = (None, \<lparr>now = 1, requests = []\<rparr>)
   \<and> waitForDeletedPV plugin_mismatch_once ''pv1'' 120000000000 cluster0
         = (None, None, \<lparr>now = 1, requests = []\<rparr>)"
  by (simp add: waitForPVDisappearance_def checkForPVDisappearance_def waitForDeletedPV_def
        checkForDeletedPV_def plugin_mismatch_once_def cluster_defs sleep_def)

text \<open>
  C3, amended. In the disappearance and deletion-marker waiters a poll that finds a
  non-PV object in the cache is a failed attempt like any other: while the backoff grants
  a retry the waiter sleeps and polls again, and when every attempt up to the deadline
  finds a non-PV object the waiter has used all its retries and returns its own timeout
  error, not the type-mismatch error.
\<close>

theorem waiters_retry_on_type_mismatch:
  "(pvIndexer_GetByKey p c name = Inr (Some OtherItem) \<longrightarrow>
      RetryNotify (checkForPVDisappearance p name) (Suc n) c
        = RetryNotify (checkForPVDisappearance p name) n (sleep c)
    \<and> RetryNotify (checkForDeletedPV p name) (Suc n) c
        = RetryNotify (checkForDeletedPV p name) n (sleep c))
   \<and> ((\<forall>t\<le>backoff_retries p d. pvIndexer_GetByKey p (c\<lparr>now := now c + t\<rparr>) name = Inr (Some OtherItem)) \<longrightarrow>
      waitForPVDisappearance p name d c
        = (Some (Errorf (''PV '' @ name @ '' was not fully deleted after '' @ Seconds_3_2f p d @ '' seconds'')),
           c\<lparr>now := now c + backoff_retries p d\<rparr>)
    \<and> waitForDeletedPV p name d c
        = (None,
           Some (Errorf (''PV '' @ name @ '' was not deleted after '' @ Seconds_3_2f p d @ '' seconds'')),
           c\<lparr>now := now c + backoff_retries p d\<rparr>))"
proof (intro conjI impI)
  assume "pvIndexer_GetByKey p c name = Inr (Some OtherItem)"
  then show "RetryNotify (checkForPVDisappearance p name) (Suc n) c
        = RetryNotify (checkForPVDisappearance p name) n (sleep c)"
    and "RetryNotify (checkForDeletedPV p name) (Suc n) c
        = RetryNotify (checkForDeletedPV p name) n (sleep c)"
    by (simp_all add: checkForPVDisappearance_def checkForDeletedPV_def)
next
  assume every: "\<forall>t\<le>backoff_retries p d.
    pvIndexer_GetByKey p (c\<lparr>now := now c + t\<rparr>) name = Inr (Some OtherItem)"
  have "\<forall>t\<le>backoff_retries p d. checkForPVDisappearance p name (c\<lparr>now := now c + t\<rparr>)
      = (Some (Errorf (''non-PV object '' @ name @ '' found in cache'')), ())"
    using every by (simp add: checkForPVDisappearance_def)
  from RetryNotify_same_failure [OF this]
  show "waitForPVDisappearance p name d c
        = (Some (Errorf (''PV '' @ name @ '' was not fully deleted after '' @ Seconds_3_2f p d @ '' seconds'')),
           c\<lparr>now := now c + backoff_retries p d\<rparr>)"
    by (simp add: waitForPVDisappearance_def)
  have "\<forall>t\<le>backoff_retries p d. checkForDeletedPV p name (c\<lparr>now := now c + t\<rparr>)
      = (Some (Errorf (''non-PV object '' @ name @ '' found in cache'')), None)"
    using every by (simp add: checkForDeletedPV_def)
  from RetryNotify_same_failure [OF this]
  show "waitForDeletedPV p name d c
        = (None,
           Some (Errorf (''PV '' @ name @ '' was not deleted after '' @ Seconds_3_2f p d @ '' seconds'')),
           c\<lparr>now := now c + backoff_retries p d\<rparr>)"
    by (simp add: waitForDeletedPV_def)
qed

theorem waiters_retry_on_type_mismatch_witness:
  "waitForPVDisappearance plugin_mismatch_always ''pv1'' 120000000000 cluster0
     = (Some (Errorf ''PV pv1 was not fully deleted after 120.00 seconds''), \<lparr>now = 2, requests = []\<rparr>)
   \<and> waitForDeletedPV plugin_mismatch_always ''pv1'' 120000000000 cluster0
     = (None, Some (Errorf ''PV pv1 was not deleted after 120.00 seconds''), \<lparr>now = 2, requests = []\<rparr>)
   \<and> RetryNotify (checkForPVDisappearance plugin_mismatch_always ''pv1'') (Suc 0) cluster0
     = RetryNotify (checkForPVDisappearance plugin_mismatch_always ''pv1'') 0 (sleep cluster0)"
proof -
  have every: "\<forall>t\<le>backoff_retries plugin_mismatch_always 120000000000.
      pvIndexer_GetByKey plugin_mismatch_always (cluster0\<lparr>now := now cluster0 + t\<rparr>) ''pv1''
        = Inr (Some OtherItem)"
    and first: "pvIndexer_GetByKey plugin_mismatch_always cluster0 ''pv1'' = Inr (Some OtherItem)"
    by (simp_all add: plugin_mismatch_always_def)
  show ?thesis
    using waiters_retry_on_type_mismatch
      [of plugin_mismatch_always cluster0 "''pv1''" 0 120000000000] every first
    by (simp add: plugin_mismatch_always_def plugin1_def cluster0_def)
qed

end
